theory Spec2Isabelle
  imports Main "HOL-Library.AList"
begin

section \<open>JavaScript values\<close>

text \<open>
  The library handles values of type \<open>unknown\<close> (component props, user metadata, the
  argument of the type guard). They are modelled by a datatype with one constructor per
  result of \<open>typeof\<close>. A function carries an identity and its own properties. An object
  carries its own properties (an association list, keys in insertion order) and its
  prototype, if it has one besides the built-in \<open>Object.prototype\<close>. The payload of a
  number plays no role in this library and is an integer.

  \<open>JTetherRef p a\<close> is the closure \<open>tetherRef\<close> that \<open>withTether\<close> creates on a render
  (withTether.tsx, the \<open>useCallback\<close>): it has captured the \<open>registerTether\<close> of the
  provider instance \<open>p\<close> and the reference \<open>a\<close> of the record \<open>finalMetadata\<close>.
\<close>

datatype jsvalue =
    JUndefined
  | JNull
  | JBoolean bool
  | JNumber int
  | JString string
  | JSymbol string
  | JFunction nat "(string \<times> jsvalue) list"
  | JTetherRef nat nat
  | JObject "(string \<times> jsvalue) list" "jsvalue option"

datatype error = Error string | TypeError string

fun typeof :: "jsvalue \<Rightarrow> string" where
  "typeof JUndefined = ''undefined''"
| "typeof JNull = ''object''"
| "typeof (JBoolean b) = ''boolean''"
| "typeof (JNumber n) = ''number''"
| "typeof (JString s) = ''string''"
| "typeof (JSymbol s) = ''symbol''"
| "typeof (JFunction f fs) = ''function''"
| "typeof (JTetherRef p a) = ''function''"
| "typeof (JObject fs proto) = ''object''"

text \<open>
  \<open>has_property k v\<close>: the property \<open>k\<close> is found on \<open>v\<close> or along its prototype chain.
  The built-in prototypes are not part of the model, so this is what JavaScript computes
  for every key that they do not define, and \<open>$$typeof\<close> is such a key.
\<close>

fun has_property :: "string \<Rightarrow> jsvalue \<Rightarrow> bool" where
  "has_property k (JObject fs proto) =
     (k \<in> fst ` set fs \<or> (case proto of None \<Rightarrow> False | Some p \<Rightarrow> has_property k p))"
| "has_property k (JFunction f fs) = (k \<in> fst ` set fs)"
| "has_property k v = False"

text \<open>The operator \<open>k in v\<close>: a TypeError when the right operand is not an object.\<close>

definition js_in :: "string \<Rightarrow> jsvalue \<Rightarrow> error + bool" where
  "js_in k v =
     (if typeof v = ''function'' \<or> (typeof v = ''object'' \<and> v \<noteq> JNull)
      then Inr (has_property k v)
      else Inl (TypeError ''Cannot use in operator to search for a key in a non-object''))"

section \<open>withTether.tsx: the type guard\<close>

text \<open>
  \<^verbatim>\<open>return component !== null && typeof component === 'object'
         && component !== null && '$$typeof' in component;\<close>
  The conjunction short-circuits: \<open>in\<close> is evaluated only when the three tests before it
  hold.
\<close>

definition isForwardRefComponent :: "jsvalue \<Rightarrow> error + bool" where
  "isForwardRefComponent component =
     (if component \<noteq> JNull \<and> typeof component = ''object'' \<and> component \<noteq> JNull
      then js_in ''$$typeof'' component
      else Inr False)"

section \<open>types.ts and the state of the program\<close>

text \<open>
  An argument of type \<open>Element\<close>. At run time the ref callback of React passes \<open>null\<close> on
  detachment, and a caller may pass \<open>undefined\<close>; a DOM element is an object with an
  identity, here a natural number.
\<close>

datatype element = NullElement | UndefinedElement | Element nat

fun falsy :: "element \<Rightarrow> bool" where
  "falsy NullElement = True"
| "falsy UndefinedElement = True"
| "falsy (Element e) = False"

record TetherMetadata =
  props :: "(string \<times> jsvalue) list"
  metadata :: jsvalue

text \<open>
  A metadata record is a JavaScript object: the store keeps a reference to it, not a copy.
  The state therefore has a heap of metadata records, addressed by natural numbers, and one
  \<open>WeakMap\<close> per provider instance (the \<open>tetherMapRef\<close> of that instance), from element
  identities to references of records. \<open>next_addr\<close> and \<open>next_provider\<close> are the next
  reference and the next instance that an allocation and a mount hand out.
\<close>

record world =
  heap :: "nat \<rightharpoonup> TetherMetadata"
  next_addr :: nat
  tetherMap :: "nat \<Rightarrow> nat \<rightharpoonup> nat"
  next_provider :: nat

definition init_world :: world where
  "init_world = \<lparr>heap = Map.empty, next_addr = 0, tetherMap = (\<lambda>p. Map.empty), next_provider = 0\<rparr>"

text \<open>\<open>WeakMap.prototype.set\<close> throws a TypeError on a key that is not an object;
  \<open>WeakMap.prototype.get\<close> returns \<open>undefined\<close> (here \<open>None\<close>) on it.\<close>

definition WeakMap_set :: "element \<Rightarrow> nat \<Rightarrow> (nat \<rightharpoonup> nat) \<Rightarrow> error + (nat \<rightharpoonup> nat)" where
  "WeakMap_set k v wm =
     (case k of
        Element e \<Rightarrow> Inr (wm(e \<mapsto> v))
      | _ \<Rightarrow> Inl (TypeError ''Invalid value used as weak map key''))"

definition WeakMap_get :: "element \<Rightarrow> (nat \<rightharpoonup> nat) \<Rightarrow> nat option" where
  "WeakMap_get k wm = (case k of Element e \<Rightarrow> wm e | _ \<Rightarrow> None)"

section \<open>TetherContext.tsx\<close>

text \<open>
  \<^verbatim>\<open>const registerTether = useCallback((element, metadata) => {
    if (!element) return;
    tetherMapRef.current.set(element, metadata);
  }, []);\<close>
  The callback of the provider instance \<open>p\<close>. It returns nothing (\<open>Inr ()\<close>) or throws
  (\<open>Inl\<close>), and the state after it is the second component.
\<close>

definition registerTether :: "nat \<Rightarrow> element \<Rightarrow> nat \<Rightarrow> world \<Rightarrow> (error + unit) \<times> world" where
  "registerTether p el m w =
     (if falsy el then (Inr (), w)
      else case WeakMap_set el m (tetherMap w p) of
             Inl err \<Rightarrow> (Inl err, w)
           | Inr wm \<Rightarrow> (Inr (), w\<lparr>tetherMap := (tetherMap w)(p := wm)\<rparr>))"

text \<open>
  \<^verbatim>\<open>const getTether = useCallback((element) => {
    return tetherMapRef.current.get(element);
  }, []);\<close>
  A pure lookup: \<open>None\<close> is \<open>undefined\<close>.
\<close>

definition getTether :: "nat \<Rightarrow> element \<Rightarrow> world \<Rightarrow> nat option" where
  "getTether p el w = WeakMap_get el (tetherMap w p)"

text \<open>
  The first render of a \<open>TetherProvider\<close> instance: \<open>useRef(new WeakMap())\<close> gives the
  instance its own empty map, which \<open>useRef\<close> keeps for every later render of the same
  instance. The context value handed to the subtree is the pair of callbacks of this
  instance, represented by the instance.
\<close>

definition TetherProvider :: "world \<Rightarrow> nat \<times> world" where
  "TetherProvider w =
     (next_provider w,
      w\<lparr>tetherMap := (tetherMap w)(next_provider w := Map.empty),
        next_provider := Suc (next_provider w)\<rparr>)"

text \<open>
  \<open>useContext(TetherContext)\<close> in a component whose enclosing \<open>TetherProvider\<close> instances
  are \<open>ctx\<close>, the nearest first: the value of the nearest one, or the default of
  \<open>createContext\<close>, which is \<open>null\<close> (here \<open>None\<close>).
\<close>

fun useContext :: "nat list \<Rightarrow> nat option" where
  "useContext [] = None"
| "useContext (p # ctx) = Some p"

definition useTetherContext :: "nat list \<Rightarrow> error + nat" where
  "useTetherContext ctx =
     (case useContext ctx of
        None \<Rightarrow> Inl (Error ''useTetherContext must be used within a TetherProvider'')
      | Some context \<Rightarrow> Inr context)"

section \<open>withTether.tsx: the wrapper\<close>

text \<open>
  A component passed to \<open>withTether\<close>, as far as the wrapper reads it: its \<open>displayName\<close>
  (typed \<open>string | undefined\<close>) and its \<open>name\<close> (a string on a function, \<open>undefined\<close> on
  the object that \<open>forwardRef\<close> returns). \<open>None\<close> is \<open>undefined\<close>.
\<close>

record component =
  displayName :: "string option"
  name :: "string option"

text \<open>Truthiness of a string or \<open>undefined\<close>, and the operator \<open>||\<close> on such values.\<close>

fun truthy :: "string option \<Rightarrow> bool" where
  "truthy None = False"
| "truthy (Some s) = (s \<noteq> [])"

definition js_or :: "string option \<Rightarrow> string option \<Rightarrow> string option" where
  "js_or a b = (if truthy a then a else b)"

text \<open>A value interpolated into a template literal.\<close>

fun template_string :: "string option \<Rightarrow> string" where
  "template_string None = ''undefined''"
| "template_string (Some s) = s"

text \<open>
  What a render of \<open>TetheredComponent\<close> returns: the element
  \<^verbatim>\<open><WrappedComponent {...componentProps} />\<close>.
\<close>

record rendered =
  element_type :: component
  element_props :: "(string \<times> jsvalue) list"

text \<open>Reading a property of a props object: \<open>undefined\<close> when it is not there.\<close>

definition get_prop :: "string \<Rightarrow> (string \<times> jsvalue) list \<Rightarrow> jsvalue" where
  "get_prop k ps = (case map_of ps k of None \<Rightarrow> JUndefined | Some v \<Rightarrow> v)"

text \<open>
  \<^verbatim>\<open>const tetherRef = useCallback((element: Element | null) => {
    if (element) {
      registerTether(element, finalMetadata);
    }
  }, [registerTether, finalMetadata]);\<close>
  with \<open>registerTether\<close> the callback of the provider instance \<open>p\<close>: what calling
  the value \<open>JTetherRef p finalMetadata\<close> does.
\<close>

definition tetherRef :: "nat \<Rightarrow> nat \<Rightarrow> element \<Rightarrow> world \<Rightarrow> (error + unit) \<times> world" where
  "tetherRef p finalMetadata el w =
     (if \<not> falsy el then registerTether p el finalMetadata w else (Inr (), w))"

text \<open>
  One render of \<open>TetheredComponent\<close> with the props \<open>ps\<close>, under the provider instances
  \<open>ctx\<close> (nearest first), in the order of the source: the destructuring, the hook (which
  may throw), the new record \<open>finalMetadata\<close> (allocated on the heap), the new closure
  \<open>tetherRef\<close>, the props of the wrapped component.
\<close>

definition TetheredComponent ::
  "component \<Rightarrow> nat list \<Rightarrow> (string \<times> jsvalue) list \<Rightarrow> world \<Rightarrow> (error + rendered) \<times> world" where
  "TetheredComponent WrappedComponent ctx ps w =
     (let tetherMetadata = get_prop ''tetherMetadata'' ps;
          restProps = AList.delete ''tetherMetadata'' ps
      in case useTetherContext ctx of
           Inl err \<Rightarrow> (Inl err, w)
         | Inr p \<Rightarrow>
             let finalMetadata = next_addr w;
                 w' = w\<lparr>heap := (heap w)(finalMetadata \<mapsto> \<lparr>props = restProps, metadata = tetherMetadata\<rparr>),
                        next_addr := Suc finalMetadata\<rparr>;
                 componentProps = AList.update ''ref'' (JTetherRef p finalMetadata) restProps
             in (Inr \<lparr>element_type = WrappedComponent, element_props = componentProps\<rparr>, w'))"

text \<open>
  \<open>withTether\<close> returns the function \<open>TetheredComponent\<close> with the property
  \<^verbatim>\<open>displayName = `withTether(${WrappedComponent.displayName || WrappedComponent.name || 'Component'})`\<close>.
\<close>

record tethered =
  wrapped :: component
  tethered_displayName :: string

definition withTether :: "component \<Rightarrow> tethered" where
  "withTether WrappedComponent =
     \<lparr>wrapped = WrappedComponent,
      tethered_displayName =
        ''withTether(''
        @ template_string
            (js_or (js_or (displayName WrappedComponent) (name WrappedComponent)) (Some ''Component''))
        @ '')''\<rparr>"

text \<open>A render of the component that \<open>withTether\<close> returned.\<close>

definition render_tethered ::
  "tethered \<Rightarrow> nat list \<Rightarrow> (string \<times> jsvalue) list \<Rightarrow> world \<Rightarrow> (error + rendered) \<times> world" where
  "render_tethered t ctx ps w = TetheredComponent (wrapped t) ctx ps w"

section \<open>Runs of an application\<close>

text \<open>
  The operations of this library that change the state of a running application: a
  provider instance mounts, some code calls the \<open>registerTether\<close> of an instance, a wrapped
  component renders, React invokes a ref callback of the wrapper.
\<close>

datatype event =
    MountProvider
  | CallRegisterTether nat element nat
  | RenderTethered component "nat list" "(string \<times> jsvalue) list"
  | CallTetherRef nat nat element

fun step :: "event \<Rightarrow> world \<Rightarrow> world" where
  "step MountProvider w = snd (TetherProvider w)"
| "step (CallRegisterTether p el m) w = snd (registerTether p el m w)"
| "step (RenderTethered c ctx ps) w = snd (TetheredComponent c ctx ps w)"
| "step (CallTetherRef p a el) w = snd (tetherRef p a el w)"

fun run :: "event list \<Rightarrow> world \<Rightarrow> world" where
  "run [] w = w"
| "run (ev # evs) w = run evs (step ev w)"

text \<open>\<open>registers p e ev\<close>: the event is a registration for the element \<open>e\<close> in the store of \<open>p\<close>.\<close>

fun registers :: "nat \<Rightarrow> nat \<Rightarrow> event \<Rightarrow> bool" where
  "registers p e (CallRegisterTether q el m) = (q = p \<and> el = Element e)"
| "registers p e (CallTetherRef q a el) = (q = p \<and> el = Element e)"
| "registers p e ev = False"

section \<open>The association store\<close>

lemma registerTether_Element:
  "registerTether p (Element e) m w =
     (Inr (), w\<lparr>tetherMap := (tetherMap w)(p := (tetherMap w p)(e \<mapsto> m))\<rparr>)"
  by (simp add: registerTether_def WeakMap_set_def)

lemma getTether_Element: "getTether p (Element e) w = tetherMap w p e"
  by (simp add: getTether_def WeakMap_get_def)

text \<open>
  C1 (round trip). Registering the record reference \<open>m\<close> for a non-null element \<open>e\<close>
  returns normally, and a lookup of \<open>e\<close> in the same store then returns the very
  reference \<open>m\<close>; the heap of records is untouched, so the \<open>props\<close> and \<open>metadata\<close> of
  the record are as they were.
\<close>

theorem register_get_roundtrip:
  "fst (registerTether p (Element e) m w) = Inr ()
   \<and> getTether p (Element e) (snd (registerTether p (Element e) m w)) = Some m
   \<and> heap (snd (registerTether p (Element e) m w)) = heap w"
  by (simp add: registerTether_Element getTether_Element)

theorem register_get_roundtrip_witness:
  "getTether 0 (Element 7) (snd (registerTether 0 (Element 7) 3 init_world)) = Some 3"
  using register_get_roundtrip [of 0 7 3 init_world] by simp

text \<open>
  C2 (overwrite on re-registration). After registering \<open>m1\<close> and then \<open>m2\<close> for the same
  element in the same store, a lookup returns \<open>m2\<close>, and the whole state is the one
  reached by registering \<open>m2\<close> alone: nothing of \<open>m1\<close> is merged or left observable.
\<close>

theorem register_twice_overwrites:
  "getTether p (Element e)
     (snd (registerTether p (Element e) m2 (snd (registerTether p (Element e) m1 w)))) = Some m2
   \<and> snd (registerTether p (Element e) m2 (snd (registerTether p (Element e) m1 w)))
     = snd (registerTether p (Element e) m2 w)"
  by (simp add: registerTether_Element getTether_Element)

theorem register_twice_overwrites_witness:
  "getTether 0 (Element 7)
     (snd (registerTether 0 (Element 7) 4 (snd (registerTether 0 (Element 7) 3 init_world))))
   = Some 4"
  using register_twice_overwrites [of 0 7 4 3 init_world] by blast

text \<open>
  C5 (null element). Registering with \<open>null\<close> or \<open>undefined\<close> as the element returns
  nothing, throws nothing and leaves the state as it was, so every later lookup answers
  as before the call.
\<close>

theorem register_null_is_noop:
  "registerTether p NullElement m w = (Inr (), w)
   \<and> registerTether p UndefinedElement m w = (Inr (), w)"
  by (simp add: registerTether_def)

theorem register_null_is_noop_witness:
  "registerTether 0 NullElement 3 init_world = (Inr (), init_world)
   \<and> registerTether 0 UndefinedElement 3 init_world = (Inr (), init_world)"
  using register_null_is_noop [of 0 3 init_world] by simp

section \<open>Lookups of elements that were never registered\<close>

lemma TetheredComponent_tetherMap:
  "tetherMap (snd (TetheredComponent c ctx ps w)) = tetherMap w"
  by (simp add: TetheredComponent_def Let_def split: sum.split)

lemma step_keeps_absent:
  assumes "tetherMap w p e = None" and "\<not> registers p e ev"
  shows "tetherMap (step ev w) p e = None"
proof (cases ev)
  case MountProvider
  with assms show ?thesis by (simp add: TetherProvider_def)
next
  case (CallRegisterTether q el m)
  with assms show ?thesis
    by (cases el) (auto simp: registerTether_def WeakMap_set_def)
next
  case (RenderTethered c ctx ps)
  with assms show ?thesis by (simp add: TetheredComponent_tetherMap)
next
  case (CallTetherRef q a el)
  with assms show ?thesis
    by (cases el) (auto simp: tetherRef_def registerTether_def WeakMap_set_def)
qed

lemma run_keeps_absent:
  "tetherMap w p e = None \<Longrightarrow> \<forall>ev \<in> set evs. \<not> registers p e ev
   \<Longrightarrow> tetherMap (run evs w) p e = None"
proof (induction evs arbitrary: w)
  case Nil
  then show ?case by simp
next
  case (Cons ev evs)
  from Cons.prems have "tetherMap (step ev w) p e = None"
    by (simp add: step_keeps_absent)
  with Cons show ?case by simp
qed

text \<open>
  C3 (absent result). Take the store of a provider instance \<open>p\<close> from its mount on, and
  any run of the application in which no registration for the element \<open>e\<close> is made in
  that store. Then the lookup of \<open>e\<close> returns \<open>undefined\<close>. The lookup has no way to
  throw: its result type has no error.
\<close>

theorem get_unregistered_is_undefined:
  assumes "TetherProvider w0 = (p, w)"
    and "\<forall>ev \<in> set evs. \<not> registers p e ev"
  shows "getTether p (Element e) (run evs w) = None"
proof -
  from assms(1) have "tetherMap w p e = None"
    by (auto simp: TetherProvider_def)
  then have "tetherMap (run evs w) p e = None"
    using assms(2) by (rule run_keeps_absent)
  then show ?thesis by (simp add: getTether_Element)
qed

theorem get_unregistered_is_undefined_witness:
  "getTether 0 (Element 7)
     (run [CallRegisterTether 0 (Element 8) 3, MountProvider, CallRegisterTether 1 (Element 7) 4,
           CallTetherRef 0 5 NullElement]
        (snd (TetherProvider init_world))) = None"
proof -
  have m: "TetherProvider init_world = (0, snd (TetherProvider init_world))"
    by (simp add: TetherProvider_def init_world_def)
  show ?thesis
    by (rule get_unregistered_is_undefined [OF m]) simp
qed

section \<open>Outside a provider\<close>

text \<open>
  C4 (outside a provider). With no enclosing \<open>TetherProvider\<close>, \<open>useTetherContext\<close>
  throws an \<open>Error\<close> whose message names the misuse. A render of a wrapped component
  there throws the same error with the state untouched, and since it returns no element,
  no ref callback exists that could register anything.
\<close>

theorem accessor_outside_provider_throws:
  "useTetherContext [] = Inl (Error ''useTetherContext must be used within a TetherProvider'')
   \<and> render_tethered (withTether C) [] ps w
       = (Inl (Error ''useTetherContext must be used within a TetherProvider''), w)"
  by (simp add: useTetherContext_def render_tethered_def TetheredComponent_def withTether_def)

theorem accessor_outside_provider_throws_witness:
  "render_tethered (withTether \<lparr>displayName = Some ''SimpleBox'', name = None\<rparr>) []
     [(''label'', JString ''Error Box'')] init_world
   = (Inl (Error ''useTetherContext must be used within a TetherProvider''), init_world)"
  using accessor_outside_provider_throws
    [of "\<lparr>displayName = Some ''SimpleBox'', name = None\<rparr>" "[(''label'', JString ''Error Box'')]"
        init_world]
  by blast

section \<open>Provider scopes\<close>

lemma step_next_provider: "next_provider w \<le> next_provider (step ev w)"
proof (cases ev)
  case MountProvider
  then show ?thesis by (simp add: TetherProvider_def)
next
  case (CallRegisterTether q el m)
  then show ?thesis
    by (cases el) (simp_all add: registerTether_def WeakMap_set_def)
next
  case (RenderTethered c ctx ps)
  then show ?thesis
    by (simp add: TetheredComponent_def Let_def split: sum.split)
next
  case (CallTetherRef q a el)
  then show ?thesis
    by (cases el) (simp_all add: tetherRef_def registerTether_def WeakMap_set_def)
qed

lemma run_next_provider: "next_provider w \<le> next_provider (run evs w)"
proof (induction evs arbitrary: w)
  case Nil
  show ?case by simp
next
  case (Cons ev evs)
  have "next_provider w \<le> next_provider (step ev w)" by (rule step_next_provider)
  also have "\<dots> \<le> next_provider (run evs (step ev w))" by (rule Cons.IH)
  finally show ?case by simp
qed

lemma mounts_distinct:
  assumes "TetherProvider w0 = (p, w1)" and "TetherProvider (run evs w1) = (q, w2)"
  shows "p \<noteq> q \<and> tetherMap w2 q = Map.empty"
proof -
  from assms(1) have "p < next_provider w1" by (auto simp: TetherProvider_def)
  also have "\<dots> \<le> next_provider (run evs w1)" by (rule run_next_provider)
  also from assms(2) have "\<dots> = q" by (auto simp: TetherProvider_def)
  finally have "p \<noteq> q" by simp
  moreover from assms(2) have "tetherMap w2 q = Map.empty" by (auto simp: TetherProvider_def)
  ultimately show ?thesis by simp
qed

lemma registerTether_other:
  "p \<noteq> q \<Longrightarrow> tetherMap (snd (registerTether p el m w)) q = tetherMap w q"
  by (cases el) (simp_all add: registerTether_def WeakMap_set_def)

lemma tetherRef_other:
  "p \<noteq> q \<Longrightarrow> tetherMap (snd (tetherRef p a el w)) q = tetherMap w q"
  by (simp add: tetherRef_def registerTether_other)

text \<open>
  C6 (isolation of provider scopes). Two provider instances, the second mounted after
  any run of the application, are distinct and the second starts with an empty store of
  its own. A registration through the accessor of one instance, made directly or by a ref
  callback of the wrapper, changes no lookup through another instance. The accessor of a
  component is the one of the nearest enclosing instance, whatever encloses that one:
  nothing is inherited from an outer scope.
\<close>

theorem provider_isolation:
  "(TetherProvider w0 = (p0, w1) \<and> TetherProvider (run evs w1) = (q0, w2)
      \<longrightarrow> p0 \<noteq> q0 \<and> tetherMap w2 q0 = Map.empty)
   \<and> (p \<noteq> q \<longrightarrow> getTether q x (snd (registerTether p el m w)) = getTether q x w
                \<and> getTether q x (snd (tetherRef p a el w)) = getTether q x w)
   \<and> useTetherContext (p # ctx) = Inr p"
proof (intro conjI impI)
  assume "TetherProvider w0 = (p0, w1) \<and> TetherProvider (run evs w1) = (q0, w2)"
  then show "p0 \<noteq> q0" and "tetherMap w2 q0 = Map.empty"
    using mounts_distinct by blast+
next
  assume "p \<noteq> q"
  then show "getTether q x (snd (registerTether p el m w)) = getTether q x w"
    by (simp add: getTether_def registerTether_other)
  from \<open>p \<noteq> q\<close> show "getTether q x (snd (tetherRef p a el w)) = getTether q x w"
    by (simp add: getTether_def tetherRef_other)
next
  show "useTetherContext (p # ctx) = Inr p" by (simp add: useTetherContext_def)
qed

theorem provider_isolation_witness:
  "getTether 1 (Element 7) (snd (registerTether 0 (Element 7) 3 init_world)) = None
   \<and> getTether 1 (Element 7) (snd (tetherRef 0 3 (Element 7) init_world)) = None
   \<and> useTetherContext [1, 0] = Inr 1
   \<and> fst (TetherProvider init_world) \<noteq> fst (TetherProvider (snd (TetherProvider init_world)))"
proof -
  have a: "TetherProvider init_world = (0, snd (TetherProvider init_world))"
    by (simp add: TetherProvider_def init_world_def)
  have b: "TetherProvider (run [] (snd (TetherProvider init_world)))
           = (1, snd (TetherProvider (snd (TetherProvider init_world))))"
    by (simp add: TetherProvider_def init_world_def)
  have c: "getTether 1 (Element 7) init_world = None"
    by (simp add: getTether_Element init_world_def)
  have d: "(0::nat) \<noteq> 1" by simp
  note i = provider_isolation
    [where ?w0.0 = init_world and ?p0.0 = 0 and ?w1.0 = "snd (TetherProvider init_world)"
       and evs = "[]" and ?q0.0 = 1
       and ?w2.0 = "snd (TetherProvider (snd (TetherProvider init_world)))"
       and p = 0 and q = 1 and x = "Element 7" and el = "Element 7" and m = 3
       and w = init_world and a = 3 and ctx = "[0]"]
  note j = provider_isolation
    [where ?w0.0 = init_world and ?p0.0 = 0 and ?w1.0 = "snd (TetherProvider init_world)"
       and evs = "[]" and ?q0.0 = 1
       and ?w2.0 = "snd (TetherProvider (snd (TetherProvider init_world)))"
       and p = 1 and q = 0 and x = "Element 7" and el = "Element 7" and m = 3
       and w = init_world and a = 3 and ctx = "[0]"]
  from i a b d have "(0::nat) \<noteq> 1
      \<and> getTether 1 (Element 7) (snd (registerTether 0 (Element 7) 3 init_world))
          = getTether 1 (Element 7) init_world
      \<and> getTether 1 (Element 7) (snd (tetherRef 0 3 (Element 7) init_world))
          = getTether 1 (Element 7) init_world"
    by blast
  moreover from j have "useTetherContext [1, 0] = Inr 1" by blast
  moreover have "fst (TetherProvider init_world)
                 \<noteq> fst (TetherProvider (snd (TetherProvider init_world)))"
    by (simp add: TetherProvider_def)
  ultimately show ?thesis using c by simp
qed

section \<open>The wrapper\<close>

lemma filter_update_other:
  "filter (\<lambda>kv. fst kv \<noteq> k) (AList.update k v xs) = filter (\<lambda>kv. fst kv \<noteq> k) xs"
  by (induction xs) auto

lemma update_absent_appends:
  "k \<notin> fst ` set xs \<Longrightarrow> AList.update k v xs = xs @ [(k, v)]"
  by (induction xs) auto

lemma delete_is_filter: "AList.delete k xs = filter (\<lambda>kv. fst kv \<noteq> k) xs"
  by (induction xs) auto

text \<open>
  Records are allocated at \<open>next_addr\<close>, which only grows, and nothing else writes the
  heap: a record, once allocated, is never changed by anything the application does later.
\<close>

lemma step_next_addr: "next_addr w \<le> next_addr (step ev w)"
proof (cases ev)
  case MountProvider
  then show ?thesis by (simp add: TetherProvider_def)
next
  case (CallRegisterTether q el m)
  then show ?thesis
    by (cases el) (simp_all add: registerTether_def WeakMap_set_def)
next
  case (RenderTethered c ctx ps)
  then show ?thesis
    by (simp add: TetheredComponent_def Let_def split: sum.split)
next
  case (CallTetherRef q a el)
  then show ?thesis
    by (cases el) (simp_all add: tetherRef_def registerTether_def WeakMap_set_def)
qed

lemma step_heap_frame: "a < next_addr w \<Longrightarrow> heap (step ev w) a = heap w a"
proof (cases ev)
  case MountProvider
  then show ?thesis by (simp add: TetherProvider_def)
next
  case (CallRegisterTether q el m)
  then show ?thesis
    by (cases el) (simp_all add: registerTether_def WeakMap_set_def)
next
  case (RenderTethered c ctx ps)
  assume "a < next_addr w"
  with RenderTethered show ?thesis
    by (simp add: TetheredComponent_def Let_def split: sum.split)
next
  case (CallTetherRef q b el)
  then show ?thesis
    by (cases el) (simp_all add: tetherRef_def registerTether_def WeakMap_set_def)
qed

lemma run_heap_frame: "a < next_addr w \<Longrightarrow> heap (run evs w) a = heap w a"
proof (induction evs arbitrary: w)
  case Nil
  show ?case by simp
next
  case (Cons ev evs)
  have "next_addr w \<le> next_addr (step ev w)" by (rule step_next_addr)
  with Cons.prems have "a < next_addr (step ev w)" by simp
  then have "heap (run evs (step ev w)) a = heap (step ev w) a" by (rule Cons.IH)
  also from Cons.prems have "\<dots> = heap w a" by (rule step_heap_frame)
  finally show ?case by simp
qed

text \<open>
  C7 as stated fails for props that hold a \<open>ref\<close> of the caller: the wrapped component
  does not receive that remaining prop unchanged, the ref callback takes its place.
\<close>

theorem caller_ref_replaced_counterexample:
  "fst (render_tethered (withTether \<lparr>displayName = Some ''SimpleBox'', name = None\<rparr>) [0]
          [(''ref'', JString ''userRef''), (''label'', JString ''Box'')] init_world)
     = Inr \<lparr>element_type = \<lparr>displayName = Some ''SimpleBox'', name = None\<rparr>,
            element_props = [(''ref'', JTetherRef 0 0), (''label'', JString ''Box'')]\<rparr>
   \<and> AList.delete ''tetherMetadata'' [(''ref'', JString ''userRef''), (''label'', JString ''Box'')]
       = [(''ref'', JString ''userRef''), (''label'', JString ''Box'')]
   \<and> map_of [(''ref'', JTetherRef 0 0), (''label'', JString ''Box'')] ''ref''
       \<noteq> map_of [(''ref'', JString ''userRef''), (''label'', JString ''Box'')] ''ref''"
  by (simp add: render_tethered_def withTether_def TetheredComponent_def Let_def
      useTetherContext_def get_prop_def init_world_def AList.delete_eq)

text \<open>
  C7 (partition of the props and payload of the registration), amended. A render of a
  component made by \<open>withTether C\<close> under a nearest provider instance \<open>p\<close> returns an
  element of \<open>C\<close>. Its props are the props passed in without \<open>tetherMetadata\<close>, with the key
  \<open>ref\<close> set to the ref callback: every other key keeps its place and its value, a \<open>ref\<close>
  among the remaining props is replaced, and without one the callback is added at the
  end. The render allocates a new record with the remaining props as \<open>props\<close> and
  the value of \<open>tetherMetadata\<close> (or \<open>undefined\<close>) as \<open>metadata\<close>; it changes no other record
  and registers nothing itself. Whenever the ref callback is called later, after any run
  of the application, with an element, it is \<open>registerTether\<close> of \<open>p\<close> on that element and
  that record, which still has the content of the render: a lookup of the element then
  returns it. Called with \<open>null\<close> it does nothing.
\<close>

theorem wrapper_partitions_and_registers:
  assumes "useTetherContext ctx = Inr p"
  shows "\<exists>out w'. render_tethered (withTether C) ctx ps w = (Inr out, w')
     \<and> element_type out = C
     \<and> map_of (element_props out) ''ref'' = Some (JTetherRef p (next_addr w))
     \<and> filter (\<lambda>kv. fst kv \<noteq> ''ref'') (element_props out)
         = filter (\<lambda>kv. fst kv \<noteq> ''ref'') (filter (\<lambda>kv. fst kv \<noteq> ''tetherMetadata'') ps)
     \<and> (''ref'' \<notin> fst ` set ps
          \<longrightarrow> element_props out
              = filter (\<lambda>kv. fst kv \<noteq> ''tetherMetadata'') ps
                @ [(''ref'', JTetherRef p (next_addr w))])
     \<and> heap w' (next_addr w)
         = Some \<lparr>props = filter (\<lambda>kv. fst kv \<noteq> ''tetherMetadata'') ps,
                 metadata = (case map_of ps ''tetherMetadata'' of None \<Rightarrow> JUndefined | Some v \<Rightarrow> v)\<rparr>
     \<and> (\<forall>b. b \<noteq> next_addr w \<longrightarrow> heap w' b = heap w b)
     \<and> tetherMap w' = tetherMap w
     \<and> (\<forall>e w''. tetherRef p (next_addr w) (Element e) w''
                   = registerTether p (Element e) (next_addr w) w'')
     \<and> (\<forall>evs e.
           fst (tetherRef p (next_addr w) (Element e) (run evs w')) = Inr ()
           \<and> getTether p (Element e) (snd (tetherRef p (next_addr w) (Element e) (run evs w')))
               = Some (next_addr w)
           \<and> heap (snd (tetherRef p (next_addr w) (Element e) (run evs w'))) (next_addr w)
               = Some \<lparr>props = filter (\<lambda>kv. fst kv \<noteq> ''tetherMetadata'') ps,
                       metadata = (case map_of ps ''tetherMetadata'' of
                                     None \<Rightarrow> JUndefined | Some v \<Rightarrow> v)\<rparr>)
     \<and> (\<forall>w''. tetherRef p (next_addr w) NullElement w'' = (Inr (), w''))"
proof -
  let ?rest = "filter (\<lambda>kv. fst kv \<noteq> ''tetherMetadata'') ps"
  let ?a = "next_addr w"
  let ?rcd = "\<lparr>props = ?rest,
                   metadata = (case map_of ps ''tetherMetadata'' of None \<Rightarrow> JUndefined | Some v \<Rightarrow> v)\<rparr>"
  let ?w' = "w\<lparr>heap := (heap w)(?a \<mapsto> ?rcd), next_addr := Suc ?a\<rparr>"
  let ?out = "\<lparr>element_type = C,
                element_props = AList.update ''ref'' (JTetherRef p ?a) ?rest\<rparr>"
  have absent: "''ref'' \<notin> fst ` set ps \<Longrightarrow> ''ref'' \<notin> fst ` set ?rest"
    by auto
  have shape: "''ref'' \<notin> fst ` set ps \<longrightarrow>
      AList.update ''ref'' (JTetherRef p ?a) ?rest = ?rest @ [(''ref'', JTetherRef p ?a)]"
    using absent by (simp add: update_absent_appends)
  from assms have render: "render_tethered (withTether C) ctx ps w = (Inr ?out, ?w')"
    by (simp add: render_tethered_def withTether_def TetheredComponent_def Let_def
        delete_is_filter get_prop_def)
  have later: "heap (run evs ?w') ?a = Some ?rcd" for evs
  proof -
    have "?a < next_addr ?w'" by simp
    then have "heap (run evs ?w') ?a = heap ?w' ?a" by (rule run_heap_frame)
    then show ?thesis by simp
  qed
  have call: "fst (tetherRef p ?a (Element e) (run evs ?w')) = Inr ()
      \<and> getTether p (Element e) (snd (tetherRef p ?a (Element e) (run evs ?w'))) = Some ?a
      \<and> heap (snd (tetherRef p ?a (Element e) (run evs ?w'))) ?a = Some ?rcd" for evs e
    using later [of evs]
    by (simp add: tetherRef_def registerTether_Element getTether_Element)
  have "element_type ?out = C
     \<and> map_of (element_props ?out) ''ref'' = Some (JTetherRef p ?a)
     \<and> filter (\<lambda>kv. fst kv \<noteq> ''ref'') (element_props ?out)
         = filter (\<lambda>kv. fst kv \<noteq> ''ref'') ?rest
     \<and> (''ref'' \<notin> fst ` set ps \<longrightarrow> element_props ?out = ?rest @ [(''ref'', JTetherRef p ?a)])
     \<and> heap ?w' ?a = Some ?rcd
     \<and> (\<forall>b. b \<noteq> ?a \<longrightarrow> heap ?w' b = heap w b)
     \<and> tetherMap ?w' = tetherMap w
     \<and> (\<forall>e w''. tetherRef p ?a (Element e) w'' = registerTether p (Element e) ?a w'')
     \<and> (\<forall>w''. tetherRef p ?a NullElement w'' = (Inr (), w''))"
    using shape by (simp add: AList.update_conv' filter_update_other tetherRef_def)
  with render call show ?thesis by blast
qed

text \<open>
  The witness is the scenario of three wrapped instances with the metadata 123, 456 and
  789: after all three renders, the ref callback of the first registers the first record.
\<close>

theorem wrapper_partitions_and_registers_witness:
  "\<exists>out w'. render_tethered (withTether \<lparr>displayName = Some ''SimpleBox'', name = None\<rparr>) [0]
       [(''label'', JString ''Box 1''), (''tetherMetadata'', JObject [(''data'', JNumber 123)] None)]
       (snd (TetherProvider init_world)) = (Inr out, w')
     \<and> element_props out = [(''label'', JString ''Box 1''), (''ref'', JTetherRef 0 0)]
     \<and> getTether 0 (Element 7)
         (snd (tetherRef 0 0 (Element 7)
            (run [RenderTethered \<lparr>displayName = Some ''SimpleBox'', name = None\<rparr> [0]
                    [(''label'', JString ''Box 2''),
                     (''tetherMetadata'', JObject [(''data'', JNumber 456)] None)],
                  RenderTethered \<lparr>displayName = Some ''SimpleBox'', name = None\<rparr> [0]
                    [(''label'', JString ''Box 3''),
                     (''tetherMetadata'', JObject [(''data'', JNumber 789)] None)]] w'))) = Some 0
     \<and> heap
         (snd (tetherRef 0 0 (Element 7)
            (run [RenderTethered \<lparr>displayName = Some ''SimpleBox'', name = None\<rparr> [0]
                    [(''label'', JString ''Box 2''),
                     (''tetherMetadata'', JObject [(''data'', JNumber 456)] None)],
                  RenderTethered \<lparr>displayName = Some ''SimpleBox'', name = None\<rparr> [0]
                    [(''label'', JString ''Box 3''),
                     (''tetherMetadata'', JObject [(''data'', JNumber 789)] None)]] w'))) 0
         = Some \<lparr>props = [(''label'', JString ''Box 1'')],
                 metadata = JObject [(''data'', JNumber 123)] None\<rparr>"
proof -
  have h: "useTetherContext [0] = Inr 0" by (simp add: useTetherContext_def)
  have a: "next_addr (snd (TetherProvider init_world)) = 0"
    by (simp add: TetherProvider_def init_world_def)
  have k: "''ref'' \<notin> fst ` set [(''label'', JString ''Box 1''),
        (''tetherMetadata'', JObject [(''data'', JNumber 123)] None)]"
    by simp
  from wrapper_partitions_and_registers [OF h,
      where C = "\<lparr>displayName = Some ''SimpleBox'', name = None\<rparr>"
        and ps = "[(''label'', JString ''Box 1''),
                   (''tetherMetadata'', JObject [(''data'', JNumber 123)] None)]"
        and w = "snd (TetherProvider init_world)"]
  show ?thesis
    unfolding a using k by (simp del: run.simps) blast
qed

section \<open>Display name\<close>

text \<open>
  C9 as stated fails for a component whose \<open>displayName\<close> is present and is the empty
  string: \<open>||\<close> skips it, and the name of the function is used.
\<close>

theorem displayName_empty_counterexample:
  "displayName \<lparr>displayName = Some '''', name = Some ''Foo''\<rparr> = Some ''''
   \<and> tethered_displayName (withTether \<lparr>displayName = Some '''', name = Some ''Foo''\<rparr>)
       = ''withTether(Foo)''
   \<and> tethered_displayName (withTether \<lparr>displayName = Some '''', name = Some ''Foo''\<rparr>)
       \<noteq> ''withTether('' @ '''' @ '')''"
  by (simp add: withTether_def js_or_def)

text \<open>
  C9 (derived display name), amended. The display name of \<open>withTether C\<close> is
  \<open>withTether(\<dots>)\<close> around the \<open>displayName\<close> of \<open>C\<close> when that is present and not empty,
  else around the function name of \<open>C\<close> when that is present and not empty, else around
  the placeholder \<open>Component\<close>.
\<close>

theorem derived_displayName:
  "(displayName C = Some d \<and> d \<noteq> []
      \<longrightarrow> tethered_displayName (withTether C) = ''withTether('' @ d @ '')'')
   \<and> ((displayName C = None \<or> displayName C = Some []) \<and> name C = Some n \<and> n \<noteq> []
      \<longrightarrow> tethered_displayName (withTether C) = ''withTether('' @ n @ '')'')
   \<and> ((displayName C = None \<or> displayName C = Some []) \<and> (name C = None \<or> name C = Some [])
      \<longrightarrow> tethered_displayName (withTether C) = ''withTether(Component)'')"
  by (auto simp: withTether_def js_or_def)

theorem derived_displayName_witness:
  "tethered_displayName (withTether \<lparr>displayName = Some ''SimpleBox'', name = Some ''Box''\<rparr>)
     = ''withTether(SimpleBox)''"
  using derived_displayName
    [of "\<lparr>displayName = Some ''SimpleBox'', name = Some ''Box''\<rparr>" "''SimpleBox''" "''Box''"]
  by simp

section \<open>The type guard\<close>

text \<open>
  C10 (type guard). \<open>isForwardRefComponent\<close> never throws, and it returns \<open>true\<close> exactly
  on a non-null value of type \<open>object\<close> that has a property \<open>$$typeof\<close>. So every object
  with that property passes, whatever the property holds (the objects that \<open>memo\<close> and
  \<open>lazy\<close> return as well), and every function fails, even one that has the property.
\<close>

theorem isForwardRefComponent_characterisation:
  "isForwardRefComponent x
     = Inr (x \<noteq> JNull \<and> typeof x = ''object'' \<and> has_property ''$$typeof'' x)
   \<and> isForwardRefComponent (JObject ((''$$typeof'', t) # fs) proto) = Inr True
   \<and> isForwardRefComponent (JFunction f gs) = Inr False"
  by (cases x) (simp_all add: isForwardRefComponent_def js_in_def)

theorem isForwardRefComponent_characterisation_witness:
  "isForwardRefComponent (JObject [(''$$typeof'', JSymbol ''react.memo''), (''type'', JFunction 0 [])] None)
     = Inr True
   \<and> isForwardRefComponent (JFunction 0 [(''$$typeof'', JSymbol ''react.forward_ref'')]) = Inr False
   \<and> isForwardRefComponent (JObject [(''render'', JFunction 0 [])] None) = Inr False"
  using isForwardRefComponent_characterisation
    [where x = "JObject [(''render'', JFunction 0 [])] None" and t = "JSymbol ''react.memo''"
       and fs = "[(''type'', JFunction 0 [])]" and proto = None and f = 0
       and gs = "[(''$$typeof'', JSymbol ''react.forward_ref'')]"]
  by simp

end
